theory Spec2Isabelle
  imports Main "HOL-Library.Word"
begin

section \<open>Types of the driver (gpio\_drivers.h and the platform headers it uses)\<close>

text \<open>
  \<open>esp_err_t\<close> is a C \<open>int\<close>; the codes are those of the platform's \<open>esp_err.h\<close>.
\<close>

type_synonym esp_err_t = int

abbreviation ESP_OK :: esp_err_t where "ESP_OK \<equiv> 0"
abbreviation ESP_FAIL :: esp_err_t where "ESP_FAIL \<equiv> - 1"
abbreviation ESP_ERR_INVALID_ARG :: esp_err_t where "ESP_ERR_INVALID_ARG \<equiv> 258"
abbreviation ESP_ERR_INVALID_STATE :: esp_err_t where "ESP_ERR_INVALID_STATE \<equiv> 259"

text \<open>
  \<open>gpio_pinout_t\<close> is a C enum whose enumerators are the platform's pin numbers
  (\<open>GPIO_NUM_n = n\<close>, \<open>GPIO_NUM_NC = -1\<close>); a value of the type is an \<open>int\<close>.
\<close>

type_synonym gpio_pinout_t = int

abbreviation BUILTIN_LED :: gpio_pinout_t where "BUILTIN_LED \<equiv> 2"
abbreviation D4 :: gpio_pinout_t where "D4 \<equiv> 4"
abbreviation D5 :: gpio_pinout_t where "D5 \<equiv> 5"
abbreviation D34 :: gpio_pinout_t where "D34 \<equiv> 34"

text \<open>
  \<open>gpio_state_t\<close>: a C enum with \<open>GPIO_STATE_LOW = 0\<close> and \<open>GPIO_STATE_HIGH = 1\<close>. It has
  no negative enumerator, so the platform's compiler represents it as an unsigned 32-bit
  integer: its values are the integers from 0 to \<open>2 ^ 32 - 1\<close>.
\<close>

type_synonym gpio_state_t = int

abbreviation GPIO_STATE_LOW :: gpio_state_t where "GPIO_STATE_LOW \<equiv> 0"
abbreviation GPIO_STATE_HIGH :: gpio_state_t where "GPIO_STATE_HIGH \<equiv> 1"

text \<open>
  The enumerations of the platform's \<open>gpio_config_t\<close>. The driver's \<open>switch\<close> names only
  \<open>GPIO_MODE_INPUT\<close> and \<open>GPIO_MODE_OUTPUT\<close>; every other mode takes its \<open>default\<close> branch.
\<close>

datatype gpio_mode_t =
    GPIO_MODE_DISABLE
  | GPIO_MODE_INPUT
  | GPIO_MODE_OUTPUT
  | GPIO_MODE_OUTPUT_OD
  | GPIO_MODE_INPUT_OUTPUT_OD
  | GPIO_MODE_INPUT_OUTPUT

datatype gpio_pullup_t = GPIO_PULLUP_DISABLE | GPIO_PULLUP_ENABLE

datatype gpio_pulldown_t = GPIO_PULLDOWN_DISABLE | GPIO_PULLDOWN_ENABLE

datatype gpio_int_type_t =
    GPIO_INTR_DISABLE
  | GPIO_INTR_POSEDGE
  | GPIO_INTR_NEGEDGE
  | GPIO_INTR_ANYEDGE
  | GPIO_INTR_LOW_LEVEL
  | GPIO_INTR_HIGH_LEVEL

record gpio_config_t =
  pin_bit_mask :: "64 word"
  mode :: gpio_mode_t
  pull_up_en :: gpio_pullup_t
  pull_down_en :: gpio_pulldown_t
  intr_type :: gpio_int_type_t

text \<open>
  A function pointer is the null pointer, the address of one of the driver's three
  member functions, or the address of some function of the application.
  A \<open>void *\<close> is \<open>None\<close> (NULL) or the address of some application datum.
\<close>

datatype funptr = FN_NULL | FN_gpio_read | FN_gpio_write | FN_gpio_toggle | FN_app nat

type_synonym voidptr = "nat option"

text \<open>
  \<open>struct gpio\<close>. The C fields \<open>_act_state\<close>, \<open>_config\<close> and \<open>_mode\<close> are written
  \<open>act_state\<close>, \<open>config\<close> and \<open>gmode\<close>, and \<open>next\<close> is written \<open>next_gpio\<close>.
\<close>

record gpio_t =
  next_gpio :: "nat option"
  pin :: gpio_pinout_t
  act_state :: gpio_state_t
  config :: gpio_config_t
  gmode :: gpio_mode_t
  isr_handler :: funptr
  isr_handler_arg :: voidptr
  init :: funptr
  set_state :: funptr
  get_state :: funptr
  toggle :: funptr

section \<open>The platform GPIO backend and the program state\<close>

text \<open>
  The vendor primitives are not part of the repository: the driver is verified against
  any backend, a record of the seven primitives it calls over a hardware state \<open>'h\<close>.
  \<open>gpio_get_level\<close> returns a C \<open>int\<close>, 32 bits wide, read as signed by \<open>sint\<close>.
  \<open>ndebug\<close> is the build switch of the platform macro \<open>ESP_ERROR_CHECK\<close>: with it the
  macro evaluates its argument and goes on, without it a code other than \<open>ESP_OK\<close>
  aborts the program.
\<close>

record 'h platform =
  gpio_config :: "gpio_config_t \<Rightarrow> 'h \<Rightarrow> esp_err_t \<times> 'h"
  gpio_set_level :: "int \<Rightarrow> 32 word \<Rightarrow> 'h \<Rightarrow> esp_err_t \<times> 'h"
  gpio_get_level :: "int \<Rightarrow> 'h \<Rightarrow> 32 word"
  gpio_isr_handler_add :: "int \<Rightarrow> funptr \<Rightarrow> voidptr \<Rightarrow> 'h \<Rightarrow> esp_err_t \<times> 'h"
  gpio_install_isr_service :: "int \<Rightarrow> 'h \<Rightarrow> esp_err_t \<times> 'h"
  gpio_intr_enable :: "int \<Rightarrow> 'h \<Rightarrow> esp_err_t \<times> 'h"
  gpio_intr_disable :: "int \<Rightarrow> 'h \<Rightarrow> esp_err_t \<times> 'h"
  ndebug :: bool

text \<open>
  Every invocation of a backend primitive is recorded, with its arguments; the record
  pairs it with the value the primitive returned (an \<open>esp_err_t\<close>, or the level for
  \<open>gpio_get_level\<close>).
\<close>

datatype call =
    Call_gpio_config gpio_config_t
  | Call_gpio_set_level int "32 word"
  | Call_gpio_get_level int
  | Call_gpio_isr_handler_add int funptr voidptr
  | Call_gpio_install_isr_service int
  | Call_gpio_intr_enable int
  | Call_gpio_intr_disable int

datatype log_entry = ESP_LOGI string "int list" | ESP_LOGE string "int list"

text \<open>
  The program state: the hardware, the record of backend calls, the log, the two
  file-scope variables of gpio\_drivers.c, and the \<open>gpio_t\<close> objects of the application
  by address. A \<open>self\<close> argument is the address of an object; a null or dangling \<open>self\<close>
  is outside the model.
\<close>

record 'h world =
  hw :: 'h
  calls :: "(call \<times> int) list"
  logs :: "log_entry list"
  isr_service_installed :: bool
  s_gpio_instance :: "nat option"
  objs :: "nat \<Rightarrow> gpio_t"

text \<open>
  A driver function returns, or the program aborts inside \<open>ESP_ERROR_CHECK\<close> with the
  failing code, or it executes a shift whose behaviour C leaves undefined.
\<close>

datatype ('a, 'h) outcome =
    Returns 'a "'h world"
  | Aborts esp_err_t "'h world"
  | Undefined_shift

text \<open>The state in which a call ended, by a return or by an abort.\<close>

fun final :: "('a, 'h) outcome \<Rightarrow> 'h world option" where
  "final (Returns v w) = Some w"
| "final (Aborts e w) = Some w"
| "final Undefined_shift = None"

text \<open>The state in which a call returned to its caller, if it did.\<close>

fun returned :: "('a, 'h) outcome \<Rightarrow> 'h world option" where
  "returned (Returns v w) = Some w"
| "returned (Aborts e w) = None"
| "returned Undefined_shift = None"

definition invoke :: "call \<Rightarrow> ('h \<Rightarrow> esp_err_t \<times> 'h) \<Rightarrow> 'h world \<Rightarrow> esp_err_t \<times> 'h world" where
  "invoke c prim w =
     (case prim (hw w) of (rc, h) \<Rightarrow> (rc, w\<lparr>hw := h, calls := calls w @ [(c, rc)]\<rparr>))"

definition esp_log :: "log_entry \<Rightarrow> 'h world \<Rightarrow> 'h world" where
  "esp_log e w = w\<lparr>logs := logs w @ [e]\<rparr>"

definition ESP_ERROR_CHECK ::
  "'h platform \<Rightarrow> esp_err_t \<times> 'h world \<Rightarrow> ('h world \<Rightarrow> ('a, 'h) outcome) \<Rightarrow> ('a, 'h) outcome" where
  "ESP_ERROR_CHECK b r k =
     (case r of (rc, w) \<Rightarrow> if rc \<noteq> ESP_OK \<and> \<not> ndebug b then Aborts rc w else k w)"

text \<open>\<open>1ULL << n\<close>: defined for a shift count from 0 to 63 only.\<close>

definition shl_1ULL :: "int \<Rightarrow> 64 word option" where
  "shl_1ULL n = (if 0 \<le> n \<and> n < 64 then Some (push_bit (nat n) 1) else None)"

abbreviation GPIO_ISR_SERVICE_DEFAULT_FLAGS :: int where
  "GPIO_ISR_SERVICE_DEFAULT_FLAGS \<equiv> 0"

section \<open>The driver (gpio\_drivers.c)\<close>

definition gpio_set_config_output ::
  "'h platform \<Rightarrow> gpio_pinout_t \<Rightarrow> 'h world \<Rightarrow> (esp_err_t, 'h) outcome" where
  "gpio_set_config_output b p w =
     (case shl_1ULL p of
        None \<Rightarrow> Undefined_shift
      | Some m \<Rightarrow>
          (let io_conf = \<lparr>pin_bit_mask = m, mode = GPIO_MODE_OUTPUT,
                          pull_up_en = GPIO_PULLUP_DISABLE,
                          pull_down_en = GPIO_PULLDOWN_DISABLE,
                          intr_type = GPIO_INTR_DISABLE\<rparr>
           in ESP_ERROR_CHECK b (invoke (Call_gpio_config io_conf) (gpio_config b io_conf) w)
                (\<lambda>w1. Returns ESP_OK
                         (esp_log (ESP_LOGI ''Configured pin %d as output'' [p]) w1))))"

text \<open>The cast \<open>(uint8_t)pin\<close> is \<open>pin mod 256\<close>.\<close>

definition gpio_set_config_input ::
  "'h platform \<Rightarrow> gpio_pinout_t \<Rightarrow> funptr \<Rightarrow> voidptr \<Rightarrow> 'h world \<Rightarrow> (esp_err_t, 'h) outcome" where
  "gpio_set_config_input b p handler handler_arg w =
     (case shl_1ULL (p mod 256) of
        None \<Rightarrow> Undefined_shift
      | Some m \<Rightarrow>
          (let io_conf = \<lparr>pin_bit_mask = m, mode = GPIO_MODE_INPUT,
                          pull_up_en = GPIO_PULLUP_ENABLE,
                          pull_down_en = GPIO_PULLDOWN_DISABLE,
                          intr_type = GPIO_INTR_NEGEDGE\<rparr>
           in ESP_ERROR_CHECK b (invoke (Call_gpio_config io_conf) (gpio_config b io_conf) w)
                (\<lambda>w1. let w2 = esp_log (ESP_LOGI ''Configured pin %d as input'' [p]) w1
                       in if handler = FN_NULL then Returns ESP_OK w2
                          else ESP_ERROR_CHECK b
                                 (invoke (Call_gpio_isr_handler_add p handler handler_arg)
                                    (gpio_isr_handler_add b p handler handler_arg) w2)
                                 (\<lambda>w3. Returns ESP_OK
                                          (esp_log (ESP_LOGI ''Configured ISR handler for pin %d'' [p])
                                             w3)))))"

text \<open>\<open>gpio_write\<close> discards what \<open>gpio_set_level\<close> returns and returns \<open>ESP_OK\<close>.\<close>

definition gpio_write :: "'h platform \<Rightarrow> nat \<Rightarrow> gpio_state_t \<Rightarrow> 'h world \<Rightarrow> esp_err_t \<times> 'h world" where
  "gpio_write b self state w =
     (let p = pin (objs w self);
          level = (word_of_int state :: 32 word)
      in (ESP_OK, snd (invoke (Call_gpio_set_level p level) (gpio_set_level b p level) w)))"

text \<open>
  \<open>gpio_read\<close> returns the \<open>int\<close> of \<open>gpio_get_level\<close> as a \<open>gpio_state_t\<close>: the
  conversion to the unsigned representation of the enum is \<open>uint\<close>, so a negative level
  \<open>-1\<close> comes out as 4294967295.
\<close>

definition gpio_read :: "'h platform \<Rightarrow> nat \<Rightarrow> 'h world \<Rightarrow> gpio_state_t \<times> 'h world" where
  "gpio_read b self w =
     (let p = pin (objs w self);
          level = gpio_get_level b p (hw w)
      in (uint level, w\<lparr>calls := calls w @ [(Call_gpio_get_level p, sint level)]\<rparr>))"

definition gpio_toggle :: "'h platform \<Rightarrow> nat \<Rightarrow> 'h world \<Rightarrow> 'h world" where
  "gpio_toggle b self w =
     (case gpio_read b self w of
        (state, w1) \<Rightarrow>
          snd (gpio_write b self
                 (if state = GPIO_STATE_LOW then GPIO_STATE_HIGH else GPIO_STATE_LOW) w1))"

text \<open>The tail of \<open>gpio_init_impl\<close>, after its \<open>switch\<close>.\<close>

definition install_isr_service_once :: "'h platform \<Rightarrow> 'h world \<Rightarrow> (unit, 'h) outcome" where
  "install_isr_service_once b w =
     (if \<not> isr_service_installed w
      then ESP_ERROR_CHECK b
             (invoke (Call_gpio_install_isr_service GPIO_ISR_SERVICE_DEFAULT_FLAGS)
                (gpio_install_isr_service b GPIO_ISR_SERVICE_DEFAULT_FLAGS) w)
             (\<lambda>w1. Returns () (w1\<lparr>isr_service_installed := True\<rparr>))
      else Returns () (esp_log (ESP_LOGI ''ISR service already installed'' []) w))"

text \<open>
  \<open>gpio_init_impl\<close>. After its first statement \<open>s_gpio_instance\<close> is \<open>self\<close>, through which
  every later access goes. The values that the two configuration helpers return are
  discarded. The assignment of the \<open>toggle\<close> member is commented out in the source.
\<close>

definition gpio_init_impl :: "'h platform \<Rightarrow> nat \<Rightarrow> 'h world \<Rightarrow> (unit, 'h) outcome" where
  "gpio_init_impl b self w =
     (let w1 = w\<lparr>s_gpio_instance := Some self\<rparr>;
          w2 = w1\<lparr>objs := (objs w1)(self := (objs w1 self)\<lparr>get_state := FN_gpio_read\<rparr>)\<rparr>;
          w3 = w2\<lparr>objs := (objs w2)(self := (objs w2 self)\<lparr>set_state := FN_gpio_write\<rparr>)\<rparr>;
          g = objs w3 self
      in case gmode g of
           GPIO_MODE_INPUT \<Rightarrow>
             (case gpio_set_config_input b (pin g) (isr_handler g) None w3 of
                Returns rc w4 \<Rightarrow> install_isr_service_once b w4
              | Aborts e w4 \<Rightarrow> Aborts e w4
              | Undefined_shift \<Rightarrow> Undefined_shift)
         | GPIO_MODE_OUTPUT \<Rightarrow>
             (case gpio_set_config_output b (pin g) w3 of
                Returns rc w4 \<Rightarrow>
                  install_isr_service_once b (snd (gpio_write b self (act_state (objs w4 self)) w4))
              | Aborts e w4 \<Rightarrow> Aborts e w4
              | Undefined_shift \<Rightarrow> Undefined_shift)
         | _ \<Rightarrow> install_isr_service_once b (esp_log (ESP_LOGE ''Invalid GPIO mode'' []) w3))"

definition gpio_disable_isr :: "'h platform \<Rightarrow> nat \<Rightarrow> 'h world \<Rightarrow> esp_err_t \<times> 'h world" where
  "gpio_disable_isr b self w =
     (let p = pin (objs w self)
      in invoke (Call_gpio_intr_disable p) (gpio_intr_disable b p) w)"

definition gpio_enable_isr :: "'h platform \<Rightarrow> nat \<Rightarrow> 'h world \<Rightarrow> esp_err_t \<times> 'h world" where
  "gpio_enable_isr b self w =
     (let p = pin (objs w self)
      in invoke (Call_gpio_intr_enable p) (gpio_intr_enable b p) w)"

section \<open>Sequences of driver operations\<close>

text \<open>
  What can happen between two driver calls: the application calls one of the driver's
  functions on an object, or stores into the fields of an object of its own, or the
  environment changes the hardware (a line driven from outside). The two file-scope
  variables of gpio\_drivers.c are \<open>static\<close>: only the driver writes them.
\<close>

datatype 'h op =
    Op_init nat
  | Op_write nat gpio_state_t
  | Op_read nat
  | Op_toggle nat
  | Op_enable_isr nat
  | Op_disable_isr nat
  | Op_store nat gpio_t
  | Op_env "'h \<Rightarrow> 'h"

fun step :: "'h platform \<Rightarrow> 'h op \<Rightarrow> 'h world \<Rightarrow> (unit, 'h) outcome" where
  "step b (Op_init self) w = gpio_init_impl b self w"
| "step b (Op_write self s) w = Returns () (snd (gpio_write b self s w))"
| "step b (Op_read self) w = Returns () (snd (gpio_read b self w))"
| "step b (Op_toggle self) w = Returns () (gpio_toggle b self w)"
| "step b (Op_enable_isr self) w = Returns () (snd (gpio_enable_isr b self w))"
| "step b (Op_disable_isr self) w = Returns () (snd (gpio_disable_isr b self w))"
| "step b (Op_store a g) w = Returns () (w\<lparr>objs := (objs w)(a := g)\<rparr>)"
| "step b (Op_env f) w = Returns () (w\<lparr>hw := f (hw w)\<rparr>)"

text \<open>A run stops at an abort or at undefined behaviour.\<close>

fun run :: "'h platform \<Rightarrow> 'h op list \<Rightarrow> 'h world \<Rightarrow> (unit, 'h) outcome" where
  "run b [] w = Returns () w"
| "run b (x # xs) w =
     (case step b x w of
        Returns u w1 \<Rightarrow> run b xs w1
      | Aborts e w1 \<Rightarrow> Aborts e w1
      | Undefined_shift \<Rightarrow> Undefined_shift)"

text \<open>
  The state at program start: \<open>isr_service_installed = false\<close>,
  \<open>s_gpio_instance = NULL\<close>, no backend call made yet.
\<close>

definition boot :: "'h \<Rightarrow> (nat \<Rightarrow> gpio_t) \<Rightarrow> 'h world" where
  "boot h store =
     \<lparr>hw = h, calls = [], logs = [], isr_service_installed = False,
      s_gpio_instance = None, objs = store\<rparr>"

section \<open>Vocabulary of the properties\<close>

text \<open>The backend calls made between an earlier state and a later one.\<close>

definition new_calls :: "'h world \<Rightarrow> 'h world \<Rightarrow> (call \<times> int) list" where
  "new_calls w w' = drop (length (calls w)) (calls w')"

fun is_install :: "call \<Rightarrow> bool" where
  "is_install (Call_gpio_install_isr_service flags) = True"
| "is_install c = False"

definition count_installs :: "(call \<times> int) list \<Rightarrow> nat" where
  "count_installs cs = length (filter (\<lambda>e. is_install (fst e)) cs)"

text \<open>Every recorded call reported \<open>ESP_OK\<close>.\<close>

definition all_ok :: "(call \<times> int) list \<Rightarrow> bool" where
  "all_ok cs = list_all (\<lambda>e. snd e = ESP_OK) cs"

text \<open>The same state with the mode, or the last-state field, of one object replaced.\<close>

definition with_mode :: "nat \<Rightarrow> gpio_mode_t \<Rightarrow> 'h world \<Rightarrow> 'h world" where
  "with_mode a m w = w\<lparr>objs := (objs w)(a := (objs w a)\<lparr>gmode := m\<rparr>)\<rparr>"

definition with_act_state :: "nat \<Rightarrow> gpio_state_t \<Rightarrow> 'h world \<Rightarrow> 'h world" where
  "with_act_state a s w = w\<lparr>objs := (objs w)(a := (objs w a)\<lparr>act_state := s\<rparr>)\<rparr>"

text \<open>
  Two contracts of a backend, as the spec's external interface describes the electrical
  primitives: a level write that the backend accepts is what a level read then returns
  (a nonzero level drives the line high), and installing the dispatch service leaves
  every line's level as it was.
\<close>

definition level_roundtrip :: "'h platform \<Rightarrow> bool" where
  "level_roundtrip b \<longleftrightarrow>
     (\<forall>p l h. fst (gpio_set_level b p l h) = ESP_OK \<longrightarrow>
        gpio_get_level b p (snd (gpio_set_level b p l h)) = (if l = 0 then 0 else 1))"

definition install_keeps_levels :: "'h platform \<Rightarrow> bool" where
  "install_keeps_levels b \<longleftrightarrow>
     (\<forall>p flags h. gpio_get_level b p (snd (gpio_install_isr_service b flags h)) =
        gpio_get_level b p h)"

text \<open>
  The spec's wording of toggle, \<open>write(invert(commanded_state))\<close>, to compare with
  \<open>gpio_toggle\<close>.
\<close>

definition spec_toggle :: "'h platform \<Rightarrow> nat \<Rightarrow> 'h world \<Rightarrow> 'h world" where
  "spec_toggle b self w =
     snd (gpio_write b self
            (if act_state (objs w self) = GPIO_STATE_LOW then GPIO_STATE_HIGH
             else GPIO_STATE_LOW) w)"

section \<open>A test double of the backend\<close>

text \<open>
  A simulated platform for concrete runs: it keeps a level per line, the dispatch table,
  the interrupt mask and whether the dispatch service is installed. It answers with the
  codes the vendor documents: \<open>ESP_ERR_INVALID_ARG\<close> for an empty pin mask and for a
  level write to a line that cannot be an output (numbers outside 0..33),
  \<open>ESP_ERR_INVALID_STATE\<close> for a handler registration before the service is installed
  and for a second installation.
\<close>

record sim_hw =
  sim_level :: "int \<Rightarrow> int"
  sim_service :: bool
  sim_handlers :: "int \<Rightarrow> (funptr \<times> voidptr) option"
  sim_masked :: "int \<Rightarrow> bool"

definition sim_gpio_config :: "gpio_config_t \<Rightarrow> sim_hw \<Rightarrow> esp_err_t \<times> sim_hw" where
  "sim_gpio_config c h =
     (if pin_bit_mask c = 0 then (ESP_ERR_INVALID_ARG, h) else (ESP_OK, h))"

definition sim_gpio_set_level :: "int \<Rightarrow> 32 word \<Rightarrow> sim_hw \<Rightarrow> esp_err_t \<times> sim_hw" where
  "sim_gpio_set_level p l h =
     (if 0 \<le> p \<and> p < 34
      then (ESP_OK, h\<lparr>sim_level := (sim_level h)(p := (if l = 0 then 0 else 1))\<rparr>)
      else (ESP_ERR_INVALID_ARG, h))"

definition sim_gpio_get_level :: "int \<Rightarrow> sim_hw \<Rightarrow> 32 word" where
  "sim_gpio_get_level p h = word_of_int (sim_level h p)"

definition sim_gpio_isr_handler_add ::
  "int \<Rightarrow> funptr \<Rightarrow> voidptr \<Rightarrow> sim_hw \<Rightarrow> esp_err_t \<times> sim_hw" where
  "sim_gpio_isr_handler_add p f a h =
     (if sim_service h then (ESP_OK, h\<lparr>sim_handlers := (sim_handlers h)(p \<mapsto> (f, a))\<rparr>)
      else (ESP_ERR_INVALID_STATE, h))"

definition sim_gpio_install_isr_service :: "int \<Rightarrow> sim_hw \<Rightarrow> esp_err_t \<times> sim_hw" where
  "sim_gpio_install_isr_service flags h =
     (if sim_service h then (ESP_ERR_INVALID_STATE, h) else (ESP_OK, h\<lparr>sim_service := True\<rparr>))"

definition sim_gpio_intr_enable :: "int \<Rightarrow> sim_hw \<Rightarrow> esp_err_t \<times> sim_hw" where
  "sim_gpio_intr_enable p h =
     (if 0 \<le> p \<and> p < 40 then (ESP_OK, h\<lparr>sim_masked := (sim_masked h)(p := False)\<rparr>)
      else (ESP_ERR_INVALID_ARG, h))"

definition sim_gpio_intr_disable :: "int \<Rightarrow> sim_hw \<Rightarrow> esp_err_t \<times> sim_hw" where
  "sim_gpio_intr_disable p h =
     (if 0 \<le> p \<and> p < 40 then (ESP_OK, h\<lparr>sim_masked := (sim_masked h)(p := True)\<rparr>)
      else (ESP_ERR_INVALID_ARG, h))"

definition sim :: "sim_hw platform" where
  "sim = \<lparr>gpio_config = sim_gpio_config,
          gpio_set_level = sim_gpio_set_level,
          gpio_get_level = sim_gpio_get_level,
          gpio_isr_handler_add = sim_gpio_isr_handler_add,
          gpio_install_isr_service = sim_gpio_install_isr_service,
          gpio_intr_enable = sim_gpio_intr_enable,
          gpio_intr_disable = sim_gpio_intr_disable,
          ndebug = False\<rparr>"

text \<open>The same platform with a fault injected: every level write fails with \<open>ESP_FAIL\<close>.\<close>

definition sim_write_fault :: "sim_hw platform" where
  "sim_write_fault = sim\<lparr>gpio_set_level := (\<lambda>p l h. (ESP_FAIL, h))\<rparr>"

text \<open>The handler and argument that the simulated service calls on an edge of a line.\<close>

definition sim_dispatch :: "int \<Rightarrow> sim_hw \<Rightarrow> (funptr \<times> voidptr) option" where
  "sim_dispatch p h = (if sim_masked h p then None else sim_handlers h p)"

text \<open>The environment forces a line to a level.\<close>

definition sim_drive :: "int \<Rightarrow> int \<Rightarrow> sim_hw \<Rightarrow> sim_hw" where
  "sim_drive p l h = h\<lparr>sim_level := (sim_level h)(p := l)\<rparr>"

definition sim_hw0 :: sim_hw where
  "sim_hw0 = \<lparr>sim_level = (\<lambda>p. 0), sim_service = False,
              sim_handlers = (\<lambda>p. None), sim_masked = (\<lambda>p. False)\<rparr>"

text \<open>
  Objects of a small application: at address 0 the built-in LED as an output, at 1 a
  button on D4 as an input with a handler and an argument, at 2 the input-only line D34
  polled without a handler, at 3 an object whose mode was left at \<open>GPIO_MODE_DISABLE\<close>,
  at 4 an output on D5 whose declared initial state is high.
\<close>

definition blank_gpio :: gpio_t where
  "blank_gpio =
     \<lparr>next_gpio = None, pin = 0, act_state = GPIO_STATE_LOW,
      config = \<lparr>pin_bit_mask = 0, mode = GPIO_MODE_DISABLE, pull_up_en = GPIO_PULLUP_DISABLE,
                pull_down_en = GPIO_PULLDOWN_DISABLE, intr_type = GPIO_INTR_DISABLE\<rparr>,
      gmode = GPIO_MODE_DISABLE, isr_handler = FN_NULL, isr_handler_arg = None,
      init = FN_NULL, set_state = FN_NULL, get_state = FN_NULL, toggle = FN_NULL\<rparr>"

definition app_objs :: "nat \<Rightarrow> gpio_t" where
  "app_objs a =
     (if a = 0 then blank_gpio\<lparr>pin := BUILTIN_LED, gmode := GPIO_MODE_OUTPUT\<rparr>
      else if a = 1 then blank_gpio\<lparr>pin := D4, gmode := GPIO_MODE_INPUT,
                                    isr_handler := FN_app 7, isr_handler_arg := Some 42\<rparr>
      else if a = 2 then blank_gpio\<lparr>pin := D34, gmode := GPIO_MODE_INPUT\<rparr>
      else if a = 3 then blank_gpio\<lparr>pin := D5\<rparr>
      else if a = 4 then blank_gpio\<lparr>pin := D5, act_state := GPIO_STATE_HIGH,
                                    gmode := GPIO_MODE_OUTPUT\<rparr>
      else blank_gpio)"

definition world0 :: "sim_hw world" where
  "world0 = boot sim_hw0 app_objs"

text \<open>
  The state after a run of the application from program start on the test double
  (the state at program start where the run is undefined).
\<close>

definition after :: "sim_hw op list \<Rightarrow> sim_hw world" where
  "after xs =
     (case run sim xs world0 of
        Returns u w \<Rightarrow> w
      | Aborts e w \<Rightarrow> w
      | Undefined_shift \<Rightarrow> world0)"

section \<open>Effects of the primitives of the model\<close>

lemma invoke_fst: "fst (invoke c prim w) = fst (prim (hw w))"
  by (simp add: invoke_def split: prod.splits)

lemma invoke_calls: "calls (snd (invoke c prim w)) = calls w @ [(c, fst (prim (hw w)))]"
  by (simp add: invoke_def split: prod.splits)

lemma invoke_hw: "hw (snd (invoke c prim w)) = snd (prim (hw w))"
  by (simp add: invoke_def split: prod.splits)

lemma invoke_frame:
  "objs (snd (invoke c prim w)) = objs w"
  "isr_service_installed (snd (invoke c prim w)) = isr_service_installed w"
  "logs (snd (invoke c prim w)) = logs w"
  "s_gpio_instance (snd (invoke c prim w)) = s_gpio_instance w"
  by (simp_all add: invoke_def split: prod.splits)

lemmas invoke_simps = invoke_fst invoke_calls invoke_hw invoke_frame

lemma esp_log_simps:
  "hw (esp_log e w) = hw w"
  "calls (esp_log e w) = calls w"
  "objs (esp_log e w) = objs w"
  "isr_service_installed (esp_log e w) = isr_service_installed w"
  "logs (esp_log e w) = logs w @ [e]"
  by (simp_all add: esp_log_def)

lemma ESP_ERROR_CHECK_alt:
  "ESP_ERROR_CHECK b r k =
     (if fst r \<noteq> ESP_OK \<and> \<not> ndebug b then Aborts (fst r) (snd r) else k (snd r))"
  by (simp add: ESP_ERROR_CHECK_def split: prod.splits)

lemma count_installs_append [simp]:
  "count_installs (xs @ ys) = count_installs xs + count_installs ys"
  by (simp add: count_installs_def)

lemma count_installs_simps [simp]:
  "count_installs [] = 0"
  "count_installs ((c, rc) # cs) = (if is_install c then 1 else 0) + count_installs cs"
  by (simp_all add: count_installs_def)

section \<open>Effects of the steady-state operations\<close>

lemma uint_level_low: "uint (x :: 32 word) = GPIO_STATE_LOW \<longleftrightarrow> x = 0"
  by (simp add: uint_0_iff)

lemma gpio_write_simps:
  "fst (gpio_write b self s w) = ESP_OK"
  "calls (snd (gpio_write b self s w)) =
     calls w @ [(Call_gpio_set_level (pin (objs w self)) (word_of_int s),
                 fst (gpio_set_level b (pin (objs w self)) (word_of_int s) (hw w)))]"
  "hw (snd (gpio_write b self s w)) =
     snd (gpio_set_level b (pin (objs w self)) (word_of_int s) (hw w))"
  "objs (snd (gpio_write b self s w)) = objs w"
  "isr_service_installed (snd (gpio_write b self s w)) = isr_service_installed w"
  "logs (snd (gpio_write b self s w)) = logs w"
  by (simp_all add: gpio_write_def Let_def invoke_simps)

lemma gpio_read_simps:
  "fst (gpio_read b self w) = uint (gpio_get_level b (pin (objs w self)) (hw w))"
  "calls (snd (gpio_read b self w)) =
     calls w @ [(Call_gpio_get_level (pin (objs w self)),
                 sint (gpio_get_level b (pin (objs w self)) (hw w)))]"
  "hw (snd (gpio_read b self w)) = hw w"
  "objs (snd (gpio_read b self w)) = objs w"
  "isr_service_installed (snd (gpio_read b self w)) = isr_service_installed w"
  "logs (snd (gpio_read b self w)) = logs w"
  by (simp_all add: gpio_read_def Let_def)

lemma gpio_toggle_simps:
  "objs (gpio_toggle b self w) = objs w"
  "isr_service_installed (gpio_toggle b self w) = isr_service_installed w"
  "logs (gpio_toggle b self w) = logs w"
  by (simp_all add: gpio_toggle_def gpio_read_def Let_def gpio_write_simps split: prod.splits)

lemma gpio_toggle_calls:
  "calls (gpio_toggle b self w) =
     calls w @
       [(Call_gpio_get_level (pin (objs w self)),
         sint (gpio_get_level b (pin (objs w self)) (hw w))),
        (Call_gpio_set_level (pin (objs w self))
           (if gpio_get_level b (pin (objs w self)) (hw w) = 0 then 1 else 0),
         fst (gpio_set_level b (pin (objs w self))
                (if gpio_get_level b (pin (objs w self)) (hw w) = 0 then 1 else 0)
                (hw w)))]"
  by (simp add: gpio_toggle_def gpio_read_def Let_def gpio_write_simps uint_level_low
        split: prod.splits)

lemma gpio_isr_simps:
  "fst (gpio_enable_isr b self w) = fst (gpio_intr_enable b (pin (objs w self)) (hw w))"
  "fst (gpio_disable_isr b self w) = fst (gpio_intr_disable b (pin (objs w self)) (hw w))"
  "calls (snd (gpio_enable_isr b self w)) =
     calls w @ [(Call_gpio_intr_enable (pin (objs w self)),
                 fst (gpio_intr_enable b (pin (objs w self)) (hw w)))]"
  "calls (snd (gpio_disable_isr b self w)) =
     calls w @ [(Call_gpio_intr_disable (pin (objs w self)),
                 fst (gpio_intr_disable b (pin (objs w self)) (hw w)))]"
  "objs (snd (gpio_enable_isr b self w)) = objs w"
  "objs (snd (gpio_disable_isr b self w)) = objs w"
  "isr_service_installed (snd (gpio_enable_isr b self w)) = isr_service_installed w"
  "isr_service_installed (snd (gpio_disable_isr b self w)) = isr_service_installed w"
  by (simp_all add: gpio_enable_isr_def gpio_disable_isr_def Let_def invoke_simps)

section \<open>Effects of the initialisation\<close>

lemmas driver_defs =
  gpio_init_impl_def gpio_set_config_output_def gpio_set_config_input_def
  install_isr_service_once_def ESP_ERROR_CHECK_alt Let_def

lemmas driver_splits =
  option.splits if_splits gpio_mode_t.splits outcome.splits

lemma install_isr_service_once_hw:
  assumes "install_keeps_levels b" and "final (install_isr_service_once b w) = Some w'"
  shows "gpio_get_level b p (hw w') = gpio_get_level b p (hw w)"
  using assms
  by (auto simp: install_isr_service_once_def ESP_ERROR_CHECK_alt install_keeps_levels_def
        invoke_simps esp_log_simps split: if_splits)

lemma install_isr_service_once_frame:
  assumes "final (install_isr_service_once b w) = Some w'"
  shows "objs w' = objs w"
  using assms
  by (auto simp: install_isr_service_once_def ESP_ERROR_CHECK_alt invoke_simps esp_log_simps
        split: if_splits)

lemma install_isr_service_once_calls:
  assumes "final (install_isr_service_once b w) = Some w'"
  shows "calls w' = calls w @
           (if isr_service_installed w then []
            else [(Call_gpio_install_isr_service GPIO_ISR_SERVICE_DEFAULT_FLAGS,
                   fst (gpio_install_isr_service b GPIO_ISR_SERVICE_DEFAULT_FLAGS (hw w)))])"
  using assms
  by (auto simp: install_isr_service_once_def ESP_ERROR_CHECK_alt invoke_simps esp_log_simps
        split: if_splits)

lemma gpio_init_impl_calls:
  assumes "final (gpio_init_impl b self w) = Some w'"
  shows "\<exists>cs. calls w' = calls w @ cs \<and>
           count_installs cs \<le> (if isr_service_installed w then 0 else 1) \<and>
           (isr_service_installed w \<longrightarrow> isr_service_installed w')"
  using assms
  by (auto simp: driver_defs invoke_simps esp_log_simps gpio_write_simps split: driver_splits)

lemma gpio_init_impl_returns_calls:
  assumes "gpio_init_impl b self w = Returns u w'"
  shows "\<exists>cs. calls w' = calls w @ cs \<and>
           count_installs cs + (if isr_service_installed w then 1 else 0) =
             (if isr_service_installed w' then 1 else 0)"
  using assms
  by (auto simp: driver_defs invoke_simps esp_log_simps gpio_write_simps split: driver_splits)

section \<open>Evaluating the test double\<close>

lemmas sim_defs =
  sim_def sim_gpio_config_def sim_gpio_set_level_def sim_gpio_get_level_def
  sim_gpio_isr_handler_add_def sim_gpio_install_isr_service_def sim_gpio_intr_enable_def
  sim_gpio_intr_disable_def sim_dispatch_def sim_drive_def sim_hw0_def blank_gpio_def
  app_objs_def world0_def boot_def after_def

lemmas eval_defs =
  gpio_init_impl_def gpio_set_config_output_def gpio_set_config_input_def
  install_isr_service_once_def ESP_ERROR_CHECK_def invoke_def esp_log_def shl_1ULL_def
  gpio_write_def gpio_read_def gpio_toggle_def gpio_enable_isr_def gpio_disable_isr_def
  spec_toggle_def new_calls_def count_installs_def all_ok_def Let_def

lemma sim_level_roundtrip: "level_roundtrip sim"
  by (simp add: level_roundtrip_def sim_def sim_gpio_set_level_def sim_gpio_get_level_def)

lemma sim_install_keeps_levels: "install_keeps_levels sim"
  by (simp add: install_keeps_levels_def sim_def sim_gpio_install_isr_service_def
        sim_gpio_get_level_def)

section \<open>Toggle (C1)\<close>

text \<open>
  C1, as the code has it: for a pin of any mode, \<open>gpio_toggle\<close> reads the level of the
  line from the hardware (\<open>gpio_get_level\<close>) and then calls the level write with the
  inverse of the level it read (high if it read low, low otherwise). These two are its
  only backend calls, and the \<open>_act_state\<close> field plays no part: replacing it beforehand
  changes nothing else in the outcome.
\<close>

theorem gpio_toggle_inverts_hardware_read:
  "new_calls w (gpio_toggle b self w) =
     [(Call_gpio_get_level (pin (objs w self)),
       sint (gpio_get_level b (pin (objs w self)) (hw w))),
      (Call_gpio_set_level (pin (objs w self))
         (if gpio_get_level b (pin (objs w self)) (hw w) = 0 then 1 else 0),
       fst (gpio_set_level b (pin (objs w self))
              (if gpio_get_level b (pin (objs w self)) (hw w) = 0 then 1 else 0)
              (hw w)))] \<and>
   gpio_toggle b self (with_act_state self s w) = with_act_state self s (gpio_toggle b self w)"
  by (simp add: new_calls_def gpio_toggle_calls)
     (simp add: gpio_toggle_def gpio_read_def gpio_write_def invoke_def with_act_state_def Let_def
        uint_level_low split: prod.splits)

text \<open>
  C1 as stated fails. The LED object is an output whose \<open>_act_state\<close> is low; it is
  configured and then written high. The field is still low, so the spec's toggle would
  drive the line high; \<open>gpio_toggle\<close> reads the high line and drives it low. And where
  the line is then pulled low from outside, the last level written is high, yet
  \<open>gpio_toggle\<close> reads the line and writes high again.
\<close>

theorem gpio_toggle_counterexample:
  "gmode (objs (after [Op_init 0, Op_write 0 GPIO_STATE_HIGH]) 0) = GPIO_MODE_OUTPUT \<and>
   act_state (objs (after [Op_init 0, Op_write 0 GPIO_STATE_HIGH]) 0) = GPIO_STATE_LOW \<and>
   sim_level (hw (spec_toggle sim 0 (after [Op_init 0, Op_write 0 GPIO_STATE_HIGH]))) BUILTIN_LED
     = GPIO_STATE_HIGH \<and>
   sim_level (hw (gpio_toggle sim 0 (after [Op_init 0, Op_write 0 GPIO_STATE_HIGH]))) BUILTIN_LED
     = GPIO_STATE_LOW \<and>
   last (calls (after [Op_init 0, Op_write 0 GPIO_STATE_HIGH])) =
     (Call_gpio_set_level BUILTIN_LED 1, ESP_OK) \<and>
   new_calls
     (after [Op_init 0, Op_write 0 GPIO_STATE_HIGH, Op_env (sim_drive BUILTIN_LED GPIO_STATE_LOW)])
     (gpio_toggle sim 0
        (after [Op_init 0, Op_write 0 GPIO_STATE_HIGH,
                Op_env (sim_drive BUILTIN_LED GPIO_STATE_LOW)])) =
     [(Call_gpio_get_level BUILTIN_LED, GPIO_STATE_LOW),
      (Call_gpio_set_level BUILTIN_LED 1, ESP_OK)]"
  by (simp add: sim_defs eval_defs)

section \<open>Write and read back (C2)\<close>

text \<open>
  The read-back half: on a backend that reads back a level it accepted, a read after an
  accepted write of a logical state returns that state. (That \<open>gpio_write\<close> returns
  \<open>ESP_OK\<close>, makes the one level write and changes no object holds with no condition:
  \<open>gpio_write_simps\<close>.)
\<close>

lemma gpio_write_read_back:
  assumes "level_roundtrip b"
    and "s = GPIO_STATE_LOW \<or> s = GPIO_STATE_HIGH"
    and "fst (gpio_set_level b (pin (objs w self)) (word_of_int s) (hw w)) = ESP_OK"
  shows "fst (gpio_read b self (snd (gpio_write b self s w))) = s"
proof -
  let ?p = "pin (objs w self)"
  let ?l = "word_of_int s :: 32 word"
  from assms(1,3) have "gpio_get_level b ?p (snd (gpio_set_level b ?p ?l (hw w))) =
      (if ?l = 0 then 0 else 1)"
    unfolding level_roundtrip_def by blast
  then have "fst (gpio_read b self (snd (gpio_write b self s w))) =
      uint (if ?l = 0 then 0 else 1 :: 32 word)"
    by (simp add: gpio_read_simps gpio_write_simps)
  also from assms(2) have "\<dots> = s" by auto
  finally show ?thesis .
qed

text \<open>
  C2 asks that a successful write of \<open>s\<close> to an output leaves the line at \<open>s\<close> and the
  pin's last-state field equal to \<open>s\<close>. The header documents \<open>_act_state\<close> as the current
  state of the pin, but \<open>gpio_write\<close> never stores into it. Here the LED, an output
  configured with \<open>_act_state\<close> low, is written high: the backend accepts the write,
  \<open>gpio_write\<close> returns \<open>ESP_OK\<close> and a read returns high, while \<open>_act_state\<close> is still
  low.
\<close>

theorem gpio_write_leaves_act_state_stale:
  "gmode (objs (after [Op_init 0]) 0) = GPIO_MODE_OUTPUT \<and>
   act_state (objs (after [Op_init 0]) 0) = GPIO_STATE_LOW \<and>
   fst (gpio_write sim 0 GPIO_STATE_HIGH (after [Op_init 0])) = ESP_OK \<and>
   new_calls (after [Op_init 0]) (snd (gpio_write sim 0 GPIO_STATE_HIGH (after [Op_init 0]))) =
     [(Call_gpio_set_level BUILTIN_LED 1, ESP_OK)] \<and>
   fst (gpio_read sim 0 (snd (gpio_write sim 0 GPIO_STATE_HIGH (after [Op_init 0])))) =
     GPIO_STATE_HIGH \<and>
   act_state (objs (snd (gpio_write sim 0 GPIO_STATE_HIGH (after [Op_init 0]))) 0) =
     GPIO_STATE_LOW"
  by (simp add: sim_defs eval_defs)

section \<open>Operations on a pin of another mode (C3)\<close>

text \<open>
  C3, as the code has it: \<open>gpio_write\<close>, \<open>gpio_toggle\<close>, \<open>gpio_enable_isr\<close> and
  \<open>gpio_disable_isr\<close> do not look at the mode of the pin. With the mode of the object
  replaced by any other, each does the same and returns the same: the write calls the
  level write and returns \<open>ESP_OK\<close>, the toggle reads and writes the line, and enabling
  or disabling the interrupt calls the backend's primitive and returns its result.
\<close>

theorem operations_ignore_mode:
  "gpio_write b self s (with_mode self m w) =
     (ESP_OK, with_mode self m (snd (gpio_write b self s w))) \<and>
   gpio_toggle b self (with_mode self m w) = with_mode self m (gpio_toggle b self w) \<and>
   gpio_enable_isr b self (with_mode self m w) =
     (fst (gpio_intr_enable b (pin (objs w self)) (hw w)),
      with_mode self m (snd (gpio_enable_isr b self w))) \<and>
   gpio_disable_isr b self (with_mode self m w) =
     (fst (gpio_intr_disable b (pin (objs w self)) (hw w)),
      with_mode self m (snd (gpio_disable_isr b self w))) \<and>
   map fst (new_calls w (snd (gpio_write b self s w))) =
     [Call_gpio_set_level (pin (objs w self)) (word_of_int s)] \<and>
   map fst (new_calls w (gpio_toggle b self w)) =
     [Call_gpio_get_level (pin (objs w self)),
      Call_gpio_set_level (pin (objs w self))
        (if gpio_get_level b (pin (objs w self)) (hw w) = 0 then 1 else 0)] \<and>
   map fst (new_calls w (snd (gpio_enable_isr b self w))) =
     [Call_gpio_intr_enable (pin (objs w self))] \<and>
   map fst (new_calls w (snd (gpio_disable_isr b self w))) =
     [Call_gpio_intr_disable (pin (objs w self))]"
  by (simp add: gpio_toggle_def gpio_read_def gpio_write_def gpio_enable_isr_def
        gpio_disable_isr_def invoke_def with_mode_def new_calls_def Let_def uint_level_low
        split: prod.splits)

text \<open>
  C3 as stated fails: a write to the button, an input, returns \<open>ESP_OK\<close> and drives its
  line; enabling the interrupt of the LED, an output, returns \<open>ESP_OK\<close> and calls the
  backend.
\<close>

theorem wrong_mode_counterexample:
  "gmode (objs (after [Op_init 0, Op_init 1]) 1) = GPIO_MODE_INPUT \<and>
   fst (gpio_write sim 1 GPIO_STATE_HIGH (after [Op_init 0, Op_init 1])) = ESP_OK \<and>
   new_calls (after [Op_init 0, Op_init 1])
     (snd (gpio_write sim 1 GPIO_STATE_HIGH (after [Op_init 0, Op_init 1]))) =
     [(Call_gpio_set_level D4 1, ESP_OK)] \<and>
   gmode (objs (after [Op_init 0, Op_init 1]) 0) = GPIO_MODE_OUTPUT \<and>
   fst (gpio_enable_isr sim 0 (after [Op_init 0, Op_init 1])) = ESP_OK \<and>
   new_calls (after [Op_init 0, Op_init 1])
     (snd (gpio_enable_isr sim 0 (after [Op_init 0, Op_init 1]))) =
     [(Call_gpio_intr_enable BUILTIN_LED, ESP_OK)]"
  by (simp add: sim_defs eval_defs)

section \<open>Installing the dispatch service (C4, C5)\<close>

text \<open>
  C4, as the code has it: \<open>gpio_init_impl\<close> installs the dispatch service in its last
  step, after the \<open>switch\<close> on the mode, whatever the mode of the pin and whether or not
  it has a handler. A call that returns has invoked the platform's installation exactly
  once if \<open>isr_service_installed\<close> was false before it, and not at all if it was true.
\<close>

theorem gpio_init_impl_installs_whatever_the_mode:
  assumes "gpio_init_impl b self w = Returns u w'"
  shows "count_installs (new_calls w w') = (if isr_service_installed w then 0 else 1)"
  using assms
  by (auto simp: driver_defs invoke_simps esp_log_simps gpio_write_simps new_calls_def
        split: driver_splits)

text \<open>
  Witness for C4: the first initialisation on the test double, of the object whose mode
  is \<open>GPIO_MODE_DISABLE\<close>, returns and has installed the service.
\<close>

theorem gpio_init_impl_installs_whatever_the_mode_witness:
  "gpio_init_impl sim 3 world0 = Returns () (after [Op_init 3]) \<and>
   \<not> isr_service_installed world0 \<and>
   count_installs (new_calls world0 (after [Op_init 3])) = 1"
proof -
  have r: "gpio_init_impl sim 3 world0 = Returns () (after [Op_init 3])"
    by (simp add: sim_defs eval_defs)
  have n: "\<not> isr_service_installed world0" by (simp add: world0_def boot_def)
  from gpio_init_impl_installs_whatever_the_mode [OF r] r n show ?thesis by simp
qed

text \<open>
  C4 as stated fails: at program start, initialising the LED (an output), or the polled
  input on D34 (no handler), or the object of mode \<open>GPIO_MODE_DISABLE\<close>, each calls the
  platform's installation.
\<close>

theorem install_isr_service_counterexample:
  "gmode (objs world0 0) = GPIO_MODE_OUTPUT \<and>
   map fst (calls (after [Op_init 0])) =
     [Call_gpio_config \<lparr>pin_bit_mask = 4, mode = GPIO_MODE_OUTPUT,
        pull_up_en = GPIO_PULLUP_DISABLE, pull_down_en = GPIO_PULLDOWN_DISABLE,
        intr_type = GPIO_INTR_DISABLE\<rparr>,
      Call_gpio_set_level BUILTIN_LED 0,
      Call_gpio_install_isr_service GPIO_ISR_SERVICE_DEFAULT_FLAGS] \<and>
   gmode (objs world0 2) = GPIO_MODE_INPUT \<and> isr_handler (objs world0 2) = FN_NULL \<and>
   count_installs (calls (after [Op_init 2])) = 1 \<and>
   gmode (objs world0 3) = GPIO_MODE_DISABLE \<and>
   count_installs (calls (after [Op_init 3])) = 1"
  by (simp add: sim_defs eval_defs)

lemma step_calls:
  assumes "final (step b x w) = Some w'"
  shows "\<exists>cs. calls w' = calls w @ cs \<and>
           count_installs cs \<le> (if isr_service_installed w then 0 else 1) \<and>
           (isr_service_installed w \<longrightarrow> isr_service_installed w')"
proof (cases x)
  case (Op_init self)
  with assms show ?thesis by (simp add: gpio_init_impl_calls)
next
  case (Op_toggle self)
  with assms show ?thesis
    by (auto simp: gpio_toggle_calls gpio_toggle_simps)
qed (use assms in \<open>auto simp: gpio_write_simps gpio_read_simps gpio_isr_simps\<close>)

lemma step_returns_calls:
  assumes "step b x w = Returns u w'"
  shows "\<exists>cs. calls w' = calls w @ cs \<and>
           count_installs cs + (if isr_service_installed w then 1 else 0) =
             (if isr_service_installed w' then 1 else 0)"
proof (cases x)
  case (Op_init self)
  with assms show ?thesis by (simp add: gpio_init_impl_returns_calls)
next
  case (Op_toggle self)
  with assms show ?thesis
    by (auto simp: gpio_toggle_calls gpio_toggle_simps)
qed (use assms in \<open>auto simp: gpio_write_simps gpio_read_simps gpio_isr_simps\<close>)

text \<open>
  Along a run that returns, the number of installations and the flag move together:
  each step adds an installation exactly when it sets the flag.
\<close>

lemma run_returns_calls:
  assumes "returned (run b xs w) = Some w'"
  shows "\<exists>cs. calls w' = calls w @ cs \<and>
           count_installs cs + (if isr_service_installed w then 1 else 0) =
             (if isr_service_installed w' then 1 else 0)"
  using assms
proof (induction xs arbitrary: w)
  case Nil
  then show ?case by simp
next
  case (Cons x xs)
  then obtain u w1 where st: "step b x w = Returns u w1"
    and rest: "returned (run b xs w1) = Some w'"
    by (auto split: outcome.splits)
  from step_returns_calls [OF st] obtain cs1 where
    c1: "calls w1 = calls w @ cs1"
      "count_installs cs1 + (if isr_service_installed w then 1 else 0) =
         (if isr_service_installed w1 then 1 else 0)"
    by blast
  from Cons.IH [OF rest] obtain cs2 where
    c2: "calls w' = calls w1 @ cs2"
      "count_installs cs2 + (if isr_service_installed w1 then 1 else 0) =
         (if isr_service_installed w' then 1 else 0)"
    by blast
  from c1 c2 have "calls w' = calls w @ (cs1 @ cs2)" by simp
  moreover from c1 c2 have
    "count_installs (cs1 @ cs2) + (if isr_service_installed w then 1 else 0) =
       (if isr_service_installed w' then 1 else 0)"
    by (auto split: if_splits)
  ultimately show ?case by blast
qed

text \<open>The same for a run that ends in an abort: the last step adds at most one.\<close>

lemma run_calls:
  assumes "final (run b xs w) = Some w'"
  shows "\<exists>cs. calls w' = calls w @ cs \<and>
           count_installs cs \<le> (if isr_service_installed w then 0 else 1) \<and>
           (isr_service_installed w \<longrightarrow> isr_service_installed w')"
  using assms
proof (induction xs arbitrary: w)
  case Nil
  then show ?case by simp
next
  case (Cons x xs)
  show ?case
  proof (cases "step b x w")
    case (Returns u w1)
    from step_returns_calls [OF Returns] obtain cs1 where
      c1: "calls w1 = calls w @ cs1"
        "count_installs cs1 + (if isr_service_installed w then 1 else 0) =
           (if isr_service_installed w1 then 1 else 0)"
      by blast
    from Cons.prems Returns have "final (run b xs w1) = Some w'" by simp
    from Cons.IH [OF this] obtain cs2 where
      c2: "calls w' = calls w1 @ cs2"
        "count_installs cs2 \<le> (if isr_service_installed w1 then 0 else 1)"
        "isr_service_installed w1 \<longrightarrow> isr_service_installed w'"
      by blast
    from c1 c2 have "calls w' = calls w @ (cs1 @ cs2)" by simp
    moreover from c1 c2 have
      "count_installs (cs1 @ cs2) \<le> (if isr_service_installed w then 0 else 1)"
      by (auto split: if_splits)
    moreover from c1 c2 have "isr_service_installed w \<longrightarrow> isr_service_installed w'"
      by (auto split: if_splits)
    ultimately show ?thesis by blast
  next
    case (Aborts e w1)
    with Cons.prems have "final (step b x w) = Some w'" by simp
    then show ?thesis by (rule step_calls)
  next
    case Undefined_shift
    with Cons.prems show ?thesis by simp
  qed
qed

text \<open>
  C5: \<open>isr_service_installed\<close> is false at program start. Along any sequence of driver
  calls, stores of the application and changes of the hardware from there, on any
  backend, the platform's installation is invoked at most once; a run that returns has
  the flag set exactly when the installation was invoked; and from any state where the
  flag is set, it stays set and no further installation is invoked.
\<close>

theorem isr_service_installed_at_most_once:
  "\<not> isr_service_installed (boot h store) \<and>
   (final (run b xs (boot h store)) = Some w \<longrightarrow> count_installs (calls w) \<le> 1) \<and>
   (returned (run b xs (boot h store)) = Some w \<longrightarrow>
      count_installs (calls w) = (if isr_service_installed w then 1 else 0)) \<and>
   (isr_service_installed w0 \<and> final (run b ys w0) = Some w1 \<longrightarrow>
      isr_service_installed w1 \<and> count_installs (new_calls w0 w1) = 0)"
proof (intro conjI impI)
  show "\<not> isr_service_installed (boot h store)" by (simp add: boot_def)
next
  assume "final (run b xs (boot h store)) = Some w"
  from run_calls [OF this] show "count_installs (calls w) \<le> 1"
    by (auto simp: boot_def)
next
  assume "returned (run b xs (boot h store)) = Some w"
  from run_returns_calls [OF this]
  show "count_installs (calls w) = (if isr_service_installed w then 1 else 0)"
    by (auto simp: boot_def)
next
  assume a: "isr_service_installed w0 \<and> final (run b ys w0) = Some w1"
  then have f: "final (run b ys w0) = Some w1" by simp
  from run_calls [OF f] a show "isr_service_installed w1" by auto
  from run_calls [OF f] a show "count_installs (new_calls w0 w1) = 0"
    by (auto simp: new_calls_def)
qed

text \<open>
  Witness for C5: three initialisations in a row on the test double (the LED, the
  button with its handler, the output on D5) return with one installation, made by the
  first of them.
\<close>

theorem isr_service_installed_at_most_once_witness:
  "final (run sim [Op_init 0, Op_init 1, Op_init 4] (boot sim_hw0 app_objs)) =
     Some (after [Op_init 0, Op_init 1, Op_init 4]) \<and>
   returned (run sim [Op_init 0, Op_init 1, Op_init 4] (boot sim_hw0 app_objs)) =
     Some (after [Op_init 0, Op_init 1, Op_init 4]) \<and>
   isr_service_installed (after [Op_init 0]) \<and>
   final (run sim [Op_init 1, Op_init 4] (after [Op_init 0])) =
     Some (after [Op_init 0, Op_init 1, Op_init 4]) \<and>
   count_installs (calls (after [Op_init 0, Op_init 1, Op_init 4])) = 1 \<and>
   isr_service_installed (after [Op_init 0, Op_init 1, Op_init 4]) \<and>
   count_installs (new_calls (after [Op_init 0]) (after [Op_init 0, Op_init 1, Op_init 4])) = 0"
proof -
  let ?xs = "[Op_init 0, Op_init 1, Op_init 4] :: sim_hw op list"
  have r: "run sim ?xs (boot sim_hw0 app_objs) = Returns () (after ?xs)"
    by (simp add: sim_defs eval_defs)
  have i: "isr_service_installed (after [Op_init 0])"
    by (simp add: sim_defs eval_defs)
  have r2: "run sim [Op_init 1, Op_init 4] (after [Op_init 0]) = Returns () (after ?xs)"
    by (simp add: sim_defs eval_defs)
  from r have f: "final (run sim ?xs (boot sim_hw0 app_objs)) = Some (after ?xs)"
    and g: "returned (run sim ?xs (boot sim_hw0 app_objs)) = Some (after ?xs)" by simp_all
  from r2 have f2: "final (run sim [Op_init 1, Op_init 4] (after [Op_init 0])) = Some (after ?xs)"
    by simp
  from isr_service_installed_at_most_once
    [of sim_hw0 app_objs sim ?xs "after ?xs" "after [Op_init 0]" "[Op_init 1, Op_init 4]" "after ?xs"]
    f g i f2
  show ?thesis by simp
qed

section \<open>The argument of the interrupt handler (C6)\<close>

text \<open>
  C6 asks that the argument the caller supplies for its handler is the one registered
  with the dispatch service. \<open>gpio_set_config_input\<close> forwards the argument it is given,
  but \<open>gpio_init_impl\<close> gives it NULL and never reads the \<open>isr_handler_arg\<close> member.
  Here the button object carries handler 7 and argument 42; once the LED and then the
  button are initialised, the registration recorded by the backend has the handler with
  a null argument, and that is what an edge on D4 dispatches, while the object still
  holds 42.
\<close>

theorem gpio_init_impl_registers_null_argument:
  "isr_handler (objs (after [Op_init 0, Op_init 1]) 1) = FN_app 7 \<and>
   isr_handler_arg (objs (after [Op_init 0, Op_init 1]) 1) = Some 42 \<and>
   last (calls (after [Op_init 0, Op_init 1])) =
     (Call_gpio_isr_handler_add D4 (FN_app 7) None, ESP_OK) \<and>
   sim_dispatch D4 (hw (after [Op_init 0, Op_init 1])) = Some (FN_app 7, None)"
  by (simp add: sim_defs eval_defs)

section \<open>Backend failures of a write (C7)\<close>

text \<open>
  C7 asks that \<open>gpio_write\<close> returns the backend's error when the level write fails.
  \<open>gpio_write\<close> discards what \<open>gpio_set_level\<close> returns. Here the LED, a configured
  output, is written high while the platform's level write fails with \<open>ESP_FAIL\<close>: the
  line stays low and \<open>gpio_write\<close> returns \<open>ESP_OK\<close>. Likewise for the object on the
  input-only line D34, initialised and then written high: the backend answers
  \<open>ESP_ERR_INVALID_ARG\<close> and \<open>gpio_write\<close> returns \<open>ESP_OK\<close>.
\<close>

theorem gpio_write_hides_backend_error:
  "gmode (objs (after [Op_init 0]) 0) = GPIO_MODE_OUTPUT \<and>
   fst (gpio_write sim_write_fault 0 GPIO_STATE_HIGH (after [Op_init 0])) = ESP_OK \<and>
   new_calls (after [Op_init 0])
     (snd (gpio_write sim_write_fault 0 GPIO_STATE_HIGH (after [Op_init 0]))) =
     [(Call_gpio_set_level BUILTIN_LED 1, ESP_FAIL)] \<and>
   fst (gpio_read sim_write_fault 0
          (snd (gpio_write sim_write_fault 0 GPIO_STATE_HIGH (after [Op_init 0])))) =
     GPIO_STATE_LOW \<and>
   fst (gpio_write sim 2 GPIO_STATE_HIGH (after [Op_init 2])) = ESP_OK \<and>
   new_calls (after [Op_init 2]) (snd (gpio_write sim 2 GPIO_STATE_HIGH (after [Op_init 2]))) =
     [(Call_gpio_set_level D34 1, ESP_ERR_INVALID_ARG)] \<and>
   fst (gpio_read sim 2 (snd (gpio_write sim 2 GPIO_STATE_HIGH (after [Op_init 2])))) =
     GPIO_STATE_LOW"
  by (simp add: sim_write_fault_def sim_defs eval_defs)

section \<open>Initialisation with an invalid mode (C8)\<close>

text \<open>
  C8, as the code has it: \<open>gpio_init_impl\<close> returns nothing. For a mode that is neither
  input nor output it logs the error \<open>Invalid GPIO mode\<close>, makes no backend call for the
  pin (no configuration, no level write, no handler registration) and goes on to its
  last step: its only backend call is the installation of the dispatch service, made if
  \<open>isr_service_installed\<close> is false. It returns to the caller unless that installation
  fails in a build where \<open>ESP_ERROR_CHECK\<close> aborts.
\<close>

theorem gpio_init_impl_invalid_mode_logs_and_goes_on:
  assumes "gmode (objs w self) \<noteq> GPIO_MODE_INPUT" and "gmode (objs w self) \<noteq> GPIO_MODE_OUTPUT"
  shows "\<exists>w'. final (gpio_init_impl b self w) = Some w' \<and>
           hd (drop (length (logs w)) (logs w')) = ESP_LOGE ''Invalid GPIO mode'' [] \<and>
           new_calls w w' =
             (if isr_service_installed w then []
              else [(Call_gpio_install_isr_service GPIO_ISR_SERVICE_DEFAULT_FLAGS,
                     fst (gpio_install_isr_service b GPIO_ISR_SERVICE_DEFAULT_FLAGS (hw w)))]) \<and>
           (isr_service_installed w \<or> ndebug b \<or>
            fst (gpio_install_isr_service b GPIO_ISR_SERVICE_DEFAULT_FLAGS (hw w)) = ESP_OK
              \<longrightarrow> gpio_init_impl b self w = Returns () w')"
  using assms
  by (cases "gmode (objs w self)")
     (auto simp: gpio_init_impl_def install_isr_service_once_def ESP_ERROR_CHECK_alt Let_def
        invoke_simps esp_log_simps new_calls_def)

text \<open>
  Witness for C8: the object of mode \<open>GPIO_MODE_DISABLE\<close>, initialised at program start
  on the test double.
\<close>

theorem gpio_init_impl_invalid_mode_witness:
  "gmode (objs world0 3) \<noteq> GPIO_MODE_INPUT \<and> gmode (objs world0 3) \<noteq> GPIO_MODE_OUTPUT \<and>
   (\<exists>w'. final (gpio_init_impl sim 3 world0) = Some w' \<and>
      hd (drop (length (logs world0)) (logs w')) = ESP_LOGE ''Invalid GPIO mode'' [] \<and>
      new_calls world0 w' = [(Call_gpio_install_isr_service GPIO_ISR_SERVICE_DEFAULT_FLAGS, ESP_OK)]
      \<and> gpio_init_impl sim 3 world0 = Returns () w')"
proof -
  have m: "gmode (objs world0 3) \<noteq> GPIO_MODE_INPUT" "gmode (objs world0 3) \<noteq> GPIO_MODE_OUTPUT"
    by (simp_all add: sim_defs)
  have n: "\<not> isr_service_installed world0"
    "fst (gpio_install_isr_service sim GPIO_ISR_SERVICE_DEFAULT_FLAGS (hw world0)) = ESP_OK"
    by (simp_all add: sim_defs)
  from gpio_init_impl_invalid_mode_logs_and_goes_on [OF m, of sim] m n
  show ?thesis by simp
qed

text \<open>
  C8 as stated fails: initialising the object of mode \<open>GPIO_MODE_DISABLE\<close> returns to
  the caller with no error value, having logged the error, installed the dispatch
  service and set the flag.
\<close>

theorem invalid_mode_counterexample:
  "gmode (objs world0 3) = GPIO_MODE_DISABLE \<and>
   gpio_init_impl sim 3 world0 = Returns () (after [Op_init 3]) \<and>
   logs (after [Op_init 3]) = [ESP_LOGE ''Invalid GPIO mode'' []] \<and>
   calls (after [Op_init 3]) =
     [(Call_gpio_install_isr_service GPIO_ISR_SERVICE_DEFAULT_FLAGS, ESP_OK)] \<and>
   isr_service_installed (after [Op_init 3])"
  by (simp add: sim_defs eval_defs)

section \<open>The initial state of an output (C9)\<close>

text \<open>
  C9: for a pin whose mode is output and whose declared initial state \<open>_act_state\<close> is
  low or high, \<open>gpio_init_impl\<close> configures the line and writes the declared state as
  its very next backend call. When the call returns and every backend call it made was
  accepted, on a backend that reads back an accepted level and whose service
  installation leaves the levels alone, a read of the pin returns the declared state.
\<close>

theorem gpio_init_impl_output_initial_state:
  assumes "level_roundtrip b" and "install_keeps_levels b"
    and "gmode (objs w self) = GPIO_MODE_OUTPUT"
    and "act_state (objs w self) = GPIO_STATE_LOW \<or> act_state (objs w self) = GPIO_STATE_HIGH"
    and "gpio_init_impl b self w = Returns u w'"
    and "all_ok (new_calls w w')"
  shows "(\<exists>m rest. shl_1ULL (pin (objs w self)) = Some m \<and>
            new_calls w w' =
              (Call_gpio_config \<lparr>pin_bit_mask = m, mode = GPIO_MODE_OUTPUT,
                 pull_up_en = GPIO_PULLUP_DISABLE, pull_down_en = GPIO_PULLDOWN_DISABLE,
                 intr_type = GPIO_INTR_DISABLE\<rparr>, ESP_OK) #
              (Call_gpio_set_level (pin (objs w self)) (word_of_int (act_state (objs w self))),
               ESP_OK) # rest) \<and>
         fst (gpio_read b self w') = act_state (objs w self)"
proof -
  let ?p = "pin (objs w self)"
  let ?s = "act_state (objs w self)"
  let ?l = "word_of_int ?s :: 32 word"
  let ?w3 = "w\<lparr>s_gpio_instance := Some self,
               objs := (objs w)(self := (objs w self)\<lparr>get_state := FN_gpio_read,
                                                       set_state := FN_gpio_write\<rparr>)\<rparr>"
  from assms(3,5) obtain m where m: "shl_1ULL ?p = Some m"
    by (auto simp: driver_defs split: option.splits)
  let ?c = "\<lparr>pin_bit_mask = m, mode = GPIO_MODE_OUTPUT,
                 pull_up_en = GPIO_PULLUP_DISABLE, pull_down_en = GPIO_PULLDOWN_DISABLE,
                 intr_type = GPIO_INTR_DISABLE\<rparr>"
  let ?w4 = "esp_log (ESP_LOGI ''Configured pin %d as output'' [?p])
               (snd (invoke (Call_gpio_config ?c) (gpio_config b ?c) ?w3))"
  let ?w5 = "snd (gpio_write b self ?s ?w4)"
  from assms(3,5) m have tail: "install_isr_service_once b ?w5 = Returns u w'"
    by (auto simp: gpio_init_impl_def gpio_set_config_output_def ESP_ERROR_CHECK_alt Let_def
          esp_log_simps invoke_simps split: if_splits)
  then have fin: "final (install_isr_service_once b ?w5) = Some w'" by simp
  have calls5: "calls ?w5 = calls w @
      [(Call_gpio_config ?c, fst (gpio_config b ?c (hw w))),
       (Call_gpio_set_level ?p ?l,
        fst (gpio_set_level b ?p ?l (snd (gpio_config b ?c (hw w)))))]"
    by (simp add: gpio_write_simps esp_log_simps invoke_simps)
  from install_isr_service_once_calls [OF fin] calls5
  obtain rest where new: "new_calls w w' =
      (Call_gpio_config ?c, fst (gpio_config b ?c (hw w))) #
      (Call_gpio_set_level ?p ?l,
        fst (gpio_set_level b ?p ?l (snd (gpio_config b ?c (hw w))))) # rest"
    by (simp add: new_calls_def)
  with assms(6) have ok1: "fst (gpio_config b ?c (hw w)) = ESP_OK"
    and ok2: "fst (gpio_set_level b ?p ?l (snd (gpio_config b ?c (hw w)))) = ESP_OK"
    by (simp_all add: all_ok_def)
  from ok2 assms(1)
  have "gpio_get_level b ?p (snd (gpio_set_level b ?p ?l (snd (gpio_config b ?c (hw w))))) =
      (if ?l = 0 then 0 else 1)"
    unfolding level_roundtrip_def by blast
  moreover have "hw ?w5 = snd (gpio_set_level b ?p ?l (snd (gpio_config b ?c (hw w))))"
    by (simp add: gpio_write_simps esp_log_simps invoke_simps)
  ultimately have "gpio_get_level b ?p (hw ?w5) = (if ?l = 0 then 0 else 1)" by simp
  with install_isr_service_once_hw [OF assms(2) fin, of ?p]
  have "gpio_get_level b ?p (hw w') = (if ?l = 0 then 0 else 1)" by simp
  then have "uint (gpio_get_level b ?p (hw w')) = uint (if ?l = 0 then 0 else 1 :: 32 word)"
    by simp
  also from assms(4) have "\<dots> = ?s" by auto
  finally have lvl: "uint (gpio_get_level b ?p (hw w')) = ?s" .
  have "objs w' = objs ?w5" by (rule install_isr_service_once_frame [OF fin])
  then have "pin (objs w' self) = ?p"
    by (simp add: gpio_write_simps esp_log_simps invoke_simps)
  with lvl have "fst (gpio_read b self w') = ?s" by (simp add: gpio_read_simps)
  with m new ok1 ok2 show ?thesis by simp
qed

text \<open>
  Witness for C9: the output on D5, declared high, initialised at program start on the
  test double; it reads back high.
\<close>

theorem gpio_init_impl_output_initial_state_witness:
  "level_roundtrip sim \<and> install_keeps_levels sim \<and>
   gmode (objs world0 4) = GPIO_MODE_OUTPUT \<and> act_state (objs world0 4) = GPIO_STATE_HIGH \<and>
   gpio_init_impl sim 4 world0 = Returns () (after [Op_init 4]) \<and>
   all_ok (new_calls world0 (after [Op_init 4])) \<and>
   fst (gpio_read sim 4 (after [Op_init 4])) = GPIO_STATE_HIGH"
proof -
  have m: "gmode (objs world0 4) = GPIO_MODE_OUTPUT" by (simp add: sim_defs)
  have a: "act_state (objs world0 4) = GPIO_STATE_HIGH" by (simp add: sim_defs)
  then have a': "act_state (objs world0 4) = GPIO_STATE_LOW \<or>
      act_state (objs world0 4) = GPIO_STATE_HIGH" by simp
  have r: "gpio_init_impl sim 4 world0 = Returns () (after [Op_init 4])"
    by (simp add: sim_defs eval_defs)
  have ok: "all_ok (new_calls world0 (after [Op_init 4]))"
    by (simp add: sim_defs eval_defs)
  from gpio_init_impl_output_initial_state
    [OF sim_level_roundtrip sim_install_keeps_levels m a' r ok]
    sim_level_roundtrip sim_install_keeps_levels m a r ok
  show ?thesis by simp
qed

section \<open>The member function pointers (C10)\<close>

text \<open>
  C10: whatever the pin and its mode, when \<open>gpio_init_impl\<close> ends (by a return or by an
  abort) the \<open>get_state\<close> member of the object is \<open>gpio_read\<close>, its \<open>set_state\<close> member is
  \<open>gpio_write\<close>, and its \<open>toggle\<close> member holds the value it held before the call: the
  initialisation does not wire it to \<open>gpio_toggle\<close>.
\<close>

theorem gpio_init_impl_leaves_toggle_unassigned:
  assumes "final (gpio_init_impl b self w) = Some w'"
  shows "get_state (objs w' self) = FN_gpio_read \<and>
         set_state (objs w' self) = FN_gpio_write \<and>
         toggle (objs w' self) = toggle (objs w self)"
  using assms
  by (auto simp: driver_defs invoke_simps esp_log_simps gpio_write_simps split: driver_splits)

text \<open>
  Witness for C10: the LED object, whose members are all null before the call; after
  the initialisation \<open>toggle\<close> is still null.
\<close>

theorem gpio_init_impl_leaves_toggle_unassigned_witness:
  "final (gpio_init_impl sim 0 world0) = Some (after [Op_init 0]) \<and>
   toggle (objs world0 0) = FN_NULL \<and>
   get_state (objs (after [Op_init 0]) 0) = FN_gpio_read \<and>
   set_state (objs (after [Op_init 0]) 0) = FN_gpio_write \<and>
   toggle (objs (after [Op_init 0]) 0) = FN_NULL"
proof -
  have "gpio_init_impl sim 0 world0 = Returns () (after [Op_init 0])"
    by (simp add: sim_defs eval_defs)
  then have f: "final (gpio_init_impl sim 0 world0) = Some (after [Op_init 0])" by simp
  have t: "toggle (objs world0 0) = FN_NULL" by (simp add: sim_defs)
  from gpio_init_impl_leaves_toggle_unassigned [OF f] f t show ?thesis by simp
qed

end
